theory Spec2Isabelle
  imports Complex_Main
begin

section \<open>Values of the JavaScript runtime\<close>

text \<open>
  The server (src/server.ts) is an Express application with two routes. Its handlers work
  on strings, on values produced by \<^verbatim>\<open>JSON.parse\<close> and on the results of runtime
  calls that may throw. A \<open>string\<close> is the UTF-8 byte sequence of a well-formed JavaScript string.
  Numbers are never computed with by the handlers, only passed through, so the type of
  numbers is a parameter \<open>'n\<close>.
\<close>

datatype 'n json =
    JNull
  | JBool bool
  | JNum 'n
  | JStr string
  | JArr "'n json list"
  | JObj "(string \<times> 'n json) list"

text \<open>
  A value of the running program is a JSON value or \<^verbatim>\<open>undefined\<close>: \<open>None\<close> is
  \<^verbatim>\<open>undefined\<close>. An object \<open>JObj kvs\<close> lists its own properties, each key once.
\<close>

type_synonym 'n jsvalue = "'n json option"

text \<open>A thrown exception: its constructor name and its message text.\<close>

datatype js_error = JsError (err_name: string) (err_text: string)

definition cannot_read :: "string \<Rightarrow> string \<Rightarrow> js_error" where
  "cannot_read base key =
     JsError ''TypeError''
       (''Cannot read properties of '' @ base @ '' (reading '' @ [CHR 0x27] @ key @ [CHR 0x27] @ '')'')"

text \<open>
  \<^verbatim>\<open>v.key\<close> for a key that no prototype of Object, Array, String, Number or Boolean
  defines (the handler reads name, main, temp, weather, description and icon only): it
  throws on \<^verbatim>\<open>null\<close> and \<^verbatim>\<open>undefined\<close>, looks the own property up on an object
  and is \<^verbatim>\<open>undefined\<close> on every other value.
\<close>

fun member :: "'n jsvalue \<Rightarrow> string \<Rightarrow> js_error + 'n jsvalue" where
  "member None key = Inl (cannot_read ''undefined'' key)"
| "member (Some JNull) key = Inl (cannot_read ''null'' key)"
| "member (Some (JObj kvs)) key = Inr (map_of kvs key)"
| "member (Some v) key = Inr None"

text \<open>
  \<^verbatim>\<open>v[0]\<close>: the first element of an array, the first unit of a string (its first
  byte here: the handler goes on to read a property of it, and a string has none), the own
  property \<^verbatim>\<open>"0"\<close> of an object, \<^verbatim>\<open>undefined\<close> on an empty array, an empty string,
  a number or a boolean; it throws on \<^verbatim>\<open>null\<close> and \<^verbatim>\<open>undefined\<close>.
\<close>

fun index0 :: "'n jsvalue \<Rightarrow> js_error + 'n jsvalue" where
  "index0 None = Inl (cannot_read ''undefined'' ''0'')"
| "index0 (Some JNull) = Inl (cannot_read ''null'' ''0'')"
| "index0 (Some (JArr xs)) = Inr (case xs of [] \<Rightarrow> None | x # _ \<Rightarrow> Some x)"
| "index0 (Some (JStr s)) = Inr (case s of [] \<Rightarrow> None | c # _ \<Rightarrow> Some (JStr [c]))"
| "index0 (Some (JObj kvs)) = Inr (map_of kvs ''0'')"
| "index0 (Some v) = Inr None"

text \<open>\<^verbatim>\<open>null\<close> and \<^verbatim>\<open>undefined\<close> are the nullish values.\<close>

fun nullish :: "'n jsvalue \<Rightarrow> bool" where
  "nullish None = True"
| "nullish (Some JNull) = True"
| "nullish (Some v) = False"

text \<open>
  Optional chaining: \<^verbatim>\<open>v?.key\<close> and \<^verbatim>\<open>v?.[0]\<close> are \<^verbatim>\<open>undefined\<close> on a nullish
  \<open>v\<close> and the plain access otherwise. Nullish coalescing: \<^verbatim>\<open>v ?? d\<close> is \<open>d\<close> on a
  nullish \<open>v\<close> and \<open>v\<close> otherwise.
\<close>

definition opt_index0 :: "'n jsvalue \<Rightarrow> js_error + 'n jsvalue" where
  "opt_index0 v = (if nullish v then Inr None else index0 v)"

definition opt_member :: "'n jsvalue \<Rightarrow> string \<Rightarrow> js_error + 'n jsvalue" where
  "opt_member v key = (if nullish v then Inr None else member v key)"

definition coalesce :: "'n jsvalue \<Rightarrow> 'n jsvalue \<Rightarrow> 'n jsvalue" where
  "coalesce v d = (if nullish v then d else v)"

text \<open>Sequencing of computations that may throw.\<close>

definition and_then :: "'e + 'a \<Rightarrow> ('a \<Rightarrow> 'e + 'b) \<Rightarrow> 'e + 'b" where
  "and_then r f = (case r of Inl e \<Rightarrow> Inl e | Inr x \<Rightarrow> f x)"

section \<open>Strings of the source\<close>

text \<open>
  The accented letters of the source's French messages, as UTF-8: e acute, e grave,
  a grave and o circumflex.
\<close>

definition e_acute :: string where "e_acute = [CHR 0xC3, CHR 0xA9]"
definition e_grave :: string where "e_grave = [CHR 0xC3, CHR 0xA8]"
definition a_grave :: string where "a_grave = [CHR 0xC3, CHR 0xA0]"
definition o_circ :: string where "o_circ = [CHR 0xC3, CHR 0xB4]"
definition apostrophe :: string where "apostrophe = [CHR 0x27]"

text \<open>The five error messages, lines 46, 58, 88, 94 and 115 of src/server.ts.\<close>

definition msg_missing_city :: string where
  "msg_missing_city = ''Param'' @ e_grave @ ''tre '' @ apostrophe @ ''city'' @ apostrophe @ '' manquant.''"

definition msg_missing_key :: string where
  "msg_missing_key = ''Cl'' @ e_acute @ '' API manquante c'' @ o_circ @ ''t'' @ e_acute @ '' serveur.''"

definition msg_not_found :: string where
  "msg_not_found = ''Ville introuvable.''"

definition msg_upstream :: string where
  "msg_upstream = ''Erreur lors de l'' @ apostrophe @ ''appel '' @ a_grave @ '' l'' @ apostrophe
     @ ''API m'' @ e_acute @ ''t'' @ e_acute @ ''o.''"

definition msg_server :: string where
  "msg_server = ''Erreur serveur.''"

text \<open>The labels of the debugging output, lines 52, 69, 70, 71 and 80.\<close>

definition label_key :: string where
  "label_key = ''API KEY c'' @ o_circ @ ''t'' @ e_acute @ '' serveur :''"

definition label_url :: string where
  "label_url = ''URL appel'' @ e_acute @ ''e :''"

definition label_key_read :: string where
  "label_key_read = ''API KEY lue c'' @ o_circ @ ''t'' @ e_acute @ '' serveur :''"

definition label_urls :: string where
  "label_urls = ''URL appel'' @ e_acute @ ''es :''"

definition label_raw :: string where
  "label_raw = ''R'' @ e_acute @ ''ponse brute OpenWeather :''"

section \<open>The runtime's \<^verbatim>\<open>encodeURIComponent\<close>\<close>

text \<open>
  Every byte of the UTF-8 form of the string is kept when it is a letter, a digit or one
  of \<^verbatim>\<open>- _ . ! ~ * ' ( )\<close>, and written as \<^verbatim>\<open>%XX\<close> in upper-case hexadecimal
  otherwise.
\<close>

definition uri_unreserved :: "char \<Rightarrow> bool" where
  "uri_unreserved c \<longleftrightarrow>
     c \<in> set (''ABCDEFGHIJKLMNOPQRSTUVWXYZabcdefghijklmnopqrstuvwxyz0123456789-_.!~*()'' @ apostrophe)"

definition hex_digit :: "nat \<Rightarrow> char" where
  "hex_digit n = ''0123456789ABCDEF'' ! (n mod 16)"

definition percent_encode :: "char \<Rightarrow> string" where
  "percent_encode c =
     [CHR ''%'', hex_digit (of_char c div 16), hex_digit (of_char c mod 16)]"

definition encodeURIComponent :: "string \<Rightarrow> string" where
  "encodeURIComponent s =
     concat (map (\<lambda>c. if uri_unreserved c then [c] else percent_encode c) s)"

section \<open>The world of a request\<close>

text \<open>
  What a handler reads from outside: the process environment \<^verbatim>\<open>process.env\<close>, the
  outcome of \<^verbatim>\<open>fetch\<close> on a URL (a rejection, or a response with its status and the
  outcome of reading its body with \<^verbatim>\<open>text()\<close>), and the runtime's \<^verbatim>\<open>JSON.parse\<close>,
  which throws on malformed text.
\<close>

record upstream_response =
  status :: nat
  text_of :: "js_error + string"

text \<open>\<^verbatim>\<open>response.ok\<close>: the status is between 200 and 299.\<close>

definition ok :: "upstream_response \<Rightarrow> bool" where
  "ok r \<longleftrightarrow> 200 \<le> status r \<and> status r \<le> 299"

record 'n world =
  env :: "string \<rightharpoonup> string"
  fetch :: "string \<Rightarrow> js_error + upstream_response"
  JSON_parse :: "string \<Rightarrow> js_error + 'n json"

text \<open>
  The request: \<^verbatim>\<open>req.query.city\<close>, a string when the parameter is given and
  \<^verbatim>\<open>undefined\<close> otherwise (the source casts it to a string).
\<close>

record request =
  query_city :: "string option"

text \<open>
  What a handler does: the calls it makes on the console and on the network, in order,
  and the response it sends with \<^verbatim>\<open>res.status(n).json(b)\<close>. The status of a
  response is 200 unless \<^verbatim>\<open>res.status\<close> is called.
\<close>

datatype event =
    ConsoleLog "string option list"
  | ConsoleError js_error
  | Fetch string

record 'n response =
  status_code :: nat
  body :: "'n json"

record 'n outcome =
  trace :: "event list"
  response :: "'n response"

text \<open>
  \<^verbatim>\<open>res.status(n).json({k1: v1, ...})\<close>: the body is serialised with
  \<^verbatim>\<open>JSON.stringify\<close>, which leaves out the properties whose value is \<^verbatim>\<open>undefined\<close>.
\<close>

fun defined_fields :: "(string \<times> 'n jsvalue) list \<Rightarrow> (string \<times> 'n json) list" where
  "defined_fields [] = []"
| "defined_fields ((k, None) # kvs) = defined_fields kvs"
| "defined_fields ((k, Some v) # kvs) = (k, v) # defined_fields kvs"

definition res_json :: "nat \<Rightarrow> (string \<times> 'n jsvalue) list \<Rightarrow> 'n response" where
  "res_json n props = \<lparr>status_code = n, body = JObj (defined_fields props)\<rparr>"

definition error_response :: "nat \<Rightarrow> string \<Rightarrow> 'n response" where
  "error_response n msg = res_json n [(''error'', Some (JStr msg))]"

section \<open>The health route\<close>

text \<open>
  \<^verbatim>\<open>app.get("/api/health", (_req, res) => { res.json({ status: "ok" }); })\<close>
\<close>

definition health_handler :: "'n world \<Rightarrow> request \<Rightarrow> 'n outcome" where
  "health_handler w req = \<lparr>trace = [], response = res_json 200 [(''status'', Some (JStr ''ok''))]\<rparr>"

section \<open>The weather route\<close>

text \<open>The URL of the upstream call, lines 65 to 67.\<close>

definition weather_url :: "string \<Rightarrow> string \<Rightarrow> string" where
  "weather_url city apiKey =
     ''https://api.openweathermap.org/data/2.5/weather?q='' @ encodeURIComponent city
       @ ''&appid='' @ apiKey @ ''&units=metric&lang=fr''"

text \<open>
  The object of lines 104 to 109, its four values read in order:
  \<^verbatim>\<open>data.name\<close>, \<^verbatim>\<open>data.main.temp\<close>,
  \<^verbatim>\<open>data.weather?.[0]?.description ?? "N/A"\<close> and
  \<^verbatim>\<open>data.weather?.[0]?.icon ?? "N/A"\<close>.
\<close>

definition first_weather :: "'n json \<Rightarrow> string \<Rightarrow> js_error + 'n jsvalue" where
  "first_weather data key =
     and_then (member (Some data) ''weather'') (\<lambda>weather.
     and_then (opt_index0 weather) (\<lambda>first.
     and_then (opt_member first key) (\<lambda>v.
       Inr (coalesce v (Some (JStr ''N/A''))))))"

definition weather_result :: "'n json \<Rightarrow> js_error + 'n response" where
  "weather_result data =
     and_then (member (Some data) ''name'') (\<lambda>city.
     and_then (and_then (member (Some data) ''main'') (\<lambda>main. member main ''temp'')) (\<lambda>temp.
     and_then (first_weather data ''description'') (\<lambda>description.
     and_then (first_weather data ''icon'') (\<lambda>icon.
       Inr (res_json 200
         [(''city'', city), (''temp'', temp), (''description'', description), (''icon'', icon)])))))"

text \<open>
  Lines 65 to 109: the call of the upstream provider for a city and a key that passed
  the two checks. The result is the events and either the exception thrown or the
  response sent.
\<close>

definition call_upstream ::
  "'n world \<Rightarrow> string \<Rightarrow> string \<Rightarrow> event list \<times> (js_error + 'n response)" where
  "call_upstream w city apiKey =
     (let url = weather_url city apiKey;
          log = [ConsoleLog [Some label_url, Some url],
                 ConsoleLog [Some label_key_read, Some apiKey],
                 ConsoleLog [Some label_urls, Some url],
                 Fetch url]
      in case fetch w url of
           Inl err \<Rightarrow> (log, Inl err)
         | Inr resp \<Rightarrow>
            (case text_of resp of
               Inl err \<Rightarrow> (log, Inl err)
             | Inr rawText \<Rightarrow>
                (let log2 = log @ [ConsoleLog [Some label_raw, Some rawText]]
                 in if \<not> ok resp then
                      (if status resp = 404 then (log2, Inr (error_response 404 msg_not_found))
                       else (log2, Inr (error_response 500 msg_upstream)))
                    else (log2, and_then (JSON_parse w rawText) weather_result))))"

text \<open>Lines 41 to 59, the body of the \<^verbatim>\<open>try\<close> block up to the upstream call.\<close>

definition weather_try :: "'n world \<Rightarrow> request \<Rightarrow> event list \<times> (js_error + 'n response)" where
  "weather_try w req =
     (case query_city req of
        None \<Rightarrow> ([], Inr (error_response 400 msg_missing_city))
      | Some city \<Rightarrow>
         if city = [] then ([], Inr (error_response 400 msg_missing_city))
         else
           (let apiKey = env w ''OPENWEATHER_API_KEY'';
                log = [ConsoleLog [Some label_key, apiKey]]
            in case apiKey of
                 None \<Rightarrow> (log, Inr (error_response 500 msg_missing_key))
               | Some key \<Rightarrow>
                  if key = [] then (log, Inr (error_response 500 msg_missing_key))
                  else (case call_upstream w city key of (tr, r) \<Rightarrow> (log @ tr, r))))"

text \<open>Lines 36 to 117: the handler, with the \<^verbatim>\<open>catch\<close> block of lines 110 to 116.\<close>

definition weather_handler :: "'n world \<Rightarrow> request \<Rightarrow> 'n outcome" where
  "weather_handler w req =
     (case weather_try w req of
        (tr, Inl err) \<Rightarrow> \<lparr>trace = tr @ [ConsoleError err], response = error_response 500 msg_server\<rparr>
      | (tr, Inr r) \<Rightarrow> \<lparr>trace = tr, response = r\<rparr>)"

section \<open>Start of the process\<close>

text \<open>
  Line 6 and lines 123 to 130. What the process finds when it starts: the environment it
  is given, the variables that \<^verbatim>\<open>dotenv/config\<close> reads from the \<^verbatim>\<open>.env\<close> file
  (none when there is no such file), and the outcome of \<^verbatim>\<open>app.listen\<close> on a port,
  which may throw.
\<close>

datatype port = PortEnv string | PortDefault

record host =
  initial_env :: "string \<rightharpoonup> string"
  dotenv_file :: "string \<rightharpoonup> string"
  listen :: "port \<Rightarrow> js_error + unit"

text \<open>
  \<^verbatim>\<open>import "dotenv/config"\<close>, line 6: every variable of the file is put into
  \<^verbatim>\<open>process.env\<close>, unless the environment has that variable already.
\<close>

definition dotenv_config :: "host \<Rightarrow> (string \<rightharpoonup> string)" where
  "dotenv_config h = dotenv_file h ++ initial_env h"

text \<open>\<^verbatim>\<open>const PORT = process.env.PORT || 3000\<close>, line 123.\<close>

definition PORT :: "(string \<rightharpoonup> string) \<Rightarrow> port" where
  "PORT e = (case e ''PORT'' of
               None \<Rightarrow> PortDefault
             | Some p \<Rightarrow> if p = [] then PortDefault else PortEnv p)"

fun port_text :: "port \<Rightarrow> string" where
  "port_text (PortEnv p) = p"
| "port_text PortDefault = ''3000''"

text \<open>
  The started process: its \<^verbatim>\<open>process.env\<close>, the port it listens on and what it has
  logged. When \<^verbatim>\<open>app.listen\<close> throws, nothing catches the exception and there is no
  process; otherwise the callback of line 127 logs the port.
\<close>

record server =
  process_env :: "string \<rightharpoonup> string"
  listening_on :: port
  startup_log :: "event list"

definition startup :: "host \<Rightarrow> js_error + server" where
  "startup h =
     (let e = dotenv_config h;
          p = PORT e
      in case listen h p of
           Inl err \<Rightarrow> Inl err
         | Inr u \<Rightarrow>
            Inr \<lparr>process_env = e,
                 listening_on = p,
                 startup_log = [ConsoleLog [Some (''Server listening on port '' @ port_text p)]]\<rparr>)"

text \<open>
  The world of a request that the started process handles. No line of the server assigns
  \<^verbatim>\<open>process.env\<close>, so the environment that line 51 reads is the one the start
  has left.
\<close>

definition running :: "server \<Rightarrow> 'n world \<Rightarrow> 'n world" where
  "running srv w = w\<lparr>env := process_env srv\<rparr>"

section \<open>Observations on an outcome\<close>

text \<open>The outbound calls among the events of a handler.\<close>

fun is_fetch :: "event \<Rightarrow> bool" where
  "is_fetch (Fetch url) = True"
| "is_fetch e = False"

definition upstream_calls :: "event list \<Rightarrow> event list" where
  "upstream_calls tr = filter is_fetch tr"

section \<open>Concrete worlds and payloads\<close>

text \<open>
  A world whose environment holds the given credential (or none) and nothing else, where
  every \<^verbatim>\<open>fetch\<close> has the given outcome and every \<^verbatim>\<open>JSON.parse\<close> the given
  result, whatever the text: the text of a response stands for the text of that result.
\<close>

definition world_with ::
  "string option \<Rightarrow> (js_error + upstream_response) \<Rightarrow> (js_error + 'n json) \<Rightarrow> 'n world" where
  "world_with key fetched parsed =
     \<lparr>env = (\<lambda>name. if name = ''OPENWEATHER_API_KEY'' then key else None),
      fetch = (\<lambda>url. fetched),
      JSON_parse = (\<lambda>rawText. parsed)\<rparr>"

text \<open>
  The payload of the specification's example:
  \<^verbatim>\<open>{name:"Paris",main:{temp:15.2},weather:[{description:"ciel degage",icon:"01d"}]}\<close>,
  the description with its two acute accents and the number 15.2 as a real.
\<close>

definition ciel_degage :: string where
  "ciel_degage = ''ciel d'' @ e_acute @ ''gag'' @ e_acute"

definition paris_payload :: "real json" where
  "paris_payload =
     JObj [(''name'', JStr ''Paris''),
           (''main'', JObj [(''temp'', JNum 15.2)]),
           (''weather'', JArr [JObj [(''description'', JStr ciel_degage), (''icon'', JStr ''01d'')]])]"

section \<open>The paths through the weather handler\<close>

lemma weather_try_missing_city:
  "query_city req = None \<or> query_city req = Some [] \<Longrightarrow>
   weather_try w req = ([], Inr (error_response 400 msg_missing_city))"
  by (auto simp: weather_try_def)

lemma weather_try_missing_key:
  "query_city req = Some city \<Longrightarrow> city \<noteq> [] \<Longrightarrow>
   env w ''OPENWEATHER_API_KEY'' = None \<or> env w ''OPENWEATHER_API_KEY'' = Some [] \<Longrightarrow>
   weather_try w req =
     ([ConsoleLog [Some label_key, env w ''OPENWEATHER_API_KEY'']],
      Inr (error_response 500 msg_missing_key))"
  by (auto simp: weather_try_def)

lemma weather_try_call:
  "query_city req = Some city \<Longrightarrow> city \<noteq> [] \<Longrightarrow>
   env w ''OPENWEATHER_API_KEY'' = Some key \<Longrightarrow> key \<noteq> [] \<Longrightarrow>
   weather_try w req =
     (ConsoleLog [Some label_key, Some key] # fst (call_upstream w city key),
      snd (call_upstream w city key))"
  by (simp add: weather_try_def split: prod.split)

lemma call_upstream_rejected:
  "fetch w (weather_url city key) = Inl err \<Longrightarrow> snd (call_upstream w city key) = Inl err"
  by (simp add: call_upstream_def Let_def)

lemma call_upstream_unread:
  "fetch w (weather_url city key) = Inr r \<Longrightarrow> text_of r = Inl err \<Longrightarrow>
   snd (call_upstream w city key) = Inl err"
  by (simp add: call_upstream_def Let_def)

lemma call_upstream_failed:
  "fetch w (weather_url city key) = Inr r \<Longrightarrow> text_of r = Inr raw \<Longrightarrow> \<not> ok r \<Longrightarrow>
   snd (call_upstream w city key) =
     Inr (if status r = 404 then error_response 404 msg_not_found
          else error_response 500 msg_upstream)"
  by (simp add: call_upstream_def Let_def)

lemma call_upstream_ok:
  "fetch w (weather_url city key) = Inr r \<Longrightarrow> text_of r = Inr raw \<Longrightarrow> ok r \<Longrightarrow>
   snd (call_upstream w city key) = and_then (JSON_parse w raw) weather_result"
  by (simp add: call_upstream_def Let_def)

lemma call_upstream_fetches_once:
  "upstream_calls (fst (call_upstream w city key)) = [Fetch (weather_url city key)]"
  by (simp add: call_upstream_def Let_def upstream_calls_def split: sum.split)

lemma weather_handler_caught:
  "snd (weather_try w req) = Inl err \<Longrightarrow>
   weather_handler w req =
     \<lparr>trace = fst (weather_try w req) @ [ConsoleError err],
      response = error_response 500 msg_server\<rparr>"
  by (cases "weather_try w req") (simp add: weather_handler_def)

lemma weather_handler_sent:
  "snd (weather_try w req) = Inr r \<Longrightarrow>
   weather_handler w req = \<lparr>trace = fst (weather_try w req), response = r\<rparr>"
  by (cases "weather_try w req") (simp add: weather_handler_def)

lemma weather_result_status:
  "weather_result data = Inr r \<Longrightarrow> status_code r = 200"
  by (auto simp: weather_result_def and_then_def res_json_def split: sum.splits)

text \<open>A response sent from inside the \<^verbatim>\<open>try\<close> block is one of four error responses or has status 200.\<close>

lemma weather_try_status:
  "snd (weather_try w req) = Inr r \<Longrightarrow>
   r = error_response 400 msg_missing_city \<or> r = error_response 500 msg_missing_key
   \<or> r = error_response 404 msg_not_found \<or> r = error_response 500 msg_upstream
   \<or> status_code r = 200"
  by (auto simp: weather_try_def call_upstream_def Let_def and_then_def
      dest: weather_result_status
      split: option.splits if_splits sum.splits prod.splits)

text \<open>How the \<^verbatim>\<open>try\<close> block comes to throw, and that it throws in no other way.\<close>

lemma network_failure_throws:
  assumes "query_city req = Some city" and "city \<noteq> []"
    and "env w ''OPENWEATHER_API_KEY'' = Some key" and "key \<noteq> []"
    and "fetch w (weather_url city key) = Inl err"
  shows "snd (weather_try w req) = Inl err"
  using assms by (simp add: weather_try_call call_upstream_rejected)

lemma body_failure_throws:
  assumes "query_city req = Some city" and "city \<noteq> []"
    and "env w ''OPENWEATHER_API_KEY'' = Some key" and "key \<noteq> []"
    and "fetch w (weather_url city key) = Inr r" and "text_of r = Inl err"
  shows "snd (weather_try w req) = Inl err"
  using assms by (simp add: weather_try_call call_upstream_unread)

lemma malformed_json_throws:
  assumes "query_city req = Some city" and "city \<noteq> []"
    and "env w ''OPENWEATHER_API_KEY'' = Some key" and "key \<noteq> []"
    and "fetch w (weather_url city key) = Inr r" and "text_of r = Inr raw" and "ok r"
    and "JSON_parse w raw = Inl err"
  shows "snd (weather_try w req) = Inl err"
  using assms by (simp add: weather_try_call call_upstream_ok and_then_def)

lemma payload_failure_throws:
  assumes "query_city req = Some city" and "city \<noteq> []"
    and "env w ''OPENWEATHER_API_KEY'' = Some key" and "key \<noteq> []"
    and "fetch w (weather_url city key) = Inr r" and "text_of r = Inr raw" and "ok r"
    and "JSON_parse w raw = Inr data" and "weather_result data = Inl err"
  shows "snd (weather_try w req) = Inl err"
  using assms by (simp add: weather_try_call call_upstream_ok and_then_def)

lemma throws_only_so:
  assumes "snd (weather_try w req) = Inl err"
  obtains city key where "query_city req = Some city" and "city \<noteq> []"
    and "env w ''OPENWEATHER_API_KEY'' = Some key" and "key \<noteq> []"
    and "fetch w (weather_url city key) = Inl err
       \<or> (\<exists>r. fetch w (weather_url city key) = Inr r \<and> text_of r = Inl err)
       \<or> (\<exists>r raw. fetch w (weather_url city key) = Inr r \<and> text_of r = Inr raw \<and> ok r
             \<and> (JSON_parse w raw = Inl err
                \<or> (\<exists>data. JSON_parse w raw = Inr data \<and> weather_result data = Inl err)))"
  using assms
  by (auto simp: weather_try_def call_upstream_def Let_def and_then_def
      split: option.splits if_splits sum.splits prod.splits)

text \<open>Reading a property throws on \<^verbatim>\<open>null\<close> only, among the values that were parsed.\<close>

lemma member_defined:
  "data \<noteq> JNull \<Longrightarrow> \<exists>v. member (Some data) key = Inr v"
  by (cases data) simp_all

lemma weather_result_unreadable:
  assumes "data = JNull \<or> member (Some data) ''main'' = Inr None
           \<or> member (Some data) ''main'' = Inr (Some JNull)"
  shows "\<exists>base key. weather_result data = Inl (cannot_read base key)"
proof (cases "data = JNull")
  case True
  then have "weather_result data = Inl (cannot_read ''null'' ''name'')"
    by (simp add: weather_result_def and_then_def)
  then show ?thesis
    by blast
next
  case False
  then obtain v where name: "member (Some data) ''name'' = Inr v"
    using member_defined by blast
  from False assms have "member (Some data) ''main'' = Inr None
      \<or> member (Some data) ''main'' = Inr (Some JNull)"
    by simp
  then have "weather_result data = Inl (cannot_read ''undefined'' ''temp'')
      \<or> weather_result data = Inl (cannot_read ''null'' ''temp'')"
    using name by (auto simp: weather_result_def and_then_def)
  then show ?thesis
    by blast
qed

section \<open>The claims of the specification\<close>

subsection \<open>The success path\<close>

text \<open>
  Claim C1. The city parameter is present and not empty, the credential is configured,
  the upstream call answers with status 200 and its body parses to the payload
  \<^verbatim>\<open>{name:"Paris",main:{temp:15.2},weather:[{description:"ciel degage",icon:"01d"}]}\<close>:
  the handler answers with status 200 and exactly the body
  \<^verbatim>\<open>{city:"Paris",temp:15.2,description:"ciel degage",icon:"01d"}\<close>.
\<close>

theorem paris_success:
  fixes w :: "real world"
  assumes "query_city req = Some city" and "city \<noteq> []"
    and "env w ''OPENWEATHER_API_KEY'' = Some key" and "key \<noteq> []"
    and "fetch w (weather_url city key) = Inr r" and "status r = 200"
    and "text_of r = Inr raw"
    and "JSON_parse w raw = Inr paris_payload"
  shows "response (weather_handler w req) =
           \<lparr>status_code = 200,
            body = JObj [(''city'', JStr ''Paris''), (''temp'', JNum 15.2),
                         (''description'', JStr ciel_degage), (''icon'', JStr ''01d'')]\<rparr>"
proof -
  have "ok r"
    using assms(6) by (simp add: ok_def)
  then have "snd (call_upstream w city key) = weather_result paris_payload"
    using assms(5,7,8) by (simp add: call_upstream_ok and_then_def)
  moreover have "weather_result paris_payload =
      Inr \<lparr>status_code = 200,
           body = JObj [(''city'', JStr ''Paris''), (''temp'', JNum 15.2),
                        (''description'', JStr ciel_degage), (''icon'', JStr ''01d'')]\<rparr>"
    by (simp add: weather_result_def first_weather_def paris_payload_def and_then_def
        opt_index0_def opt_member_def coalesce_def res_json_def)
  ultimately have "snd (weather_try w req) =
      Inr \<lparr>status_code = 200,
           body = JObj [(''city'', JStr ''Paris''), (''temp'', JNum 15.2),
                        (''description'', JStr ciel_degage), (''icon'', JStr ''01d'')]\<rparr>"
    using assms(1-4) by (simp add: weather_try_call)
  then show ?thesis
    by (simp add: weather_handler_sent)
qed

text \<open>The world of the example: the hypotheses of C1 hold there.\<close>

theorem paris_success_witness:
  "response (weather_handler
       (world_with (Some ''k1'') (Inr \<lparr>status = 200, text_of = Inr ''(json)''\<rparr>) (Inr paris_payload))
       \<lparr>query_city = Some ''Paris''\<rparr>) =
     \<lparr>status_code = 200,
      body = JObj [(''city'', JStr ''Paris''), (''temp'', JNum 15.2),
                   (''description'', JStr ciel_degage), (''icon'', JStr ''01d'')]\<rparr>"
  by (rule paris_success [where city = "''Paris''" and key = "''k1''" and raw = "''(json)''"
        and r = "\<lparr>status = 200, text_of = Inr ''(json)''\<rparr>"])
     (simp_all add: world_with_def)

text \<open>
  Claim C2. The upstream call succeeds and the parsed payload has \<^verbatim>\<open>weather\<close> absent
  or an empty array, while \<^verbatim>\<open>name\<close> and \<^verbatim>\<open>main.temp\<close> can be read as in the
  normal case: the handler answers with status 200, description \<^verbatim>\<open>"N/A"\<close> and icon
  \<^verbatim>\<open>"N/A"\<close>, the city is the payload's \<^verbatim>\<open>name\<close> and the temperature its
  \<^verbatim>\<open>main.temp\<close>.
\<close>

theorem no_weather_defaults:
  assumes "query_city req = Some city" and "city \<noteq> []"
    and "env w ''OPENWEATHER_API_KEY'' = Some key" and "key \<noteq> []"
    and "fetch w (weather_url city key) = Inr r" and "ok r"
    and "text_of r = Inr raw"
    and "JSON_parse w raw = Inr data"
    and "member (Some data) ''weather'' = Inr None
         \<or> member (Some data) ''weather'' = Inr (Some (JArr []))"
    and "member (Some data) ''name'' = Inr name"
    and "member (Some data) ''main'' = Inr main" and "member main ''temp'' = Inr temp"
  shows "response (weather_handler w req) =
           res_json 200 [(''city'', name), (''temp'', temp),
                         (''description'', Some (JStr ''N/A'')), (''icon'', Some (JStr ''N/A''))]"
proof -
  have fw: "first_weather data k = Inr (Some (JStr ''N/A''))" for k
    using assms(9)
    by (auto simp: first_weather_def and_then_def opt_index0_def opt_member_def coalesce_def)
  have "weather_result data =
      Inr (res_json 200 [(''city'', name), (''temp'', temp),
                         (''description'', Some (JStr ''N/A'')), (''icon'', Some (JStr ''N/A''))])"
    using assms(10-12) by (simp add: weather_result_def and_then_def fw)
  moreover have "snd (call_upstream w city key) = weather_result data"
    using assms(5-8) by (simp add: call_upstream_ok and_then_def)
  ultimately have "snd (weather_try w req) =
      Inr (res_json 200 [(''city'', name), (''temp'', temp),
                         (''description'', Some (JStr ''N/A'')), (''icon'', Some (JStr ''N/A''))])"
    using assms(1-4) by (simp add: weather_try_call)
  then show ?thesis
    by (simp add: weather_handler_sent)
qed

text \<open>Both cases of C2 at a payload for Paris: \<^verbatim>\<open>weather\<close> empty, and absent.\<close>

theorem no_weather_defaults_witness:
  "response (weather_handler
       (world_with (Some ''k1'') (Inr \<lparr>status = 200, text_of = Inr ''(json)''\<rparr>)
          (Inr (JObj [(''name'', JStr ''Paris''), (''main'', JObj [(''temp'', JNum (15.2 :: real))]),
                      (''weather'', JArr [])])))
       \<lparr>query_city = Some ''Paris''\<rparr>) =
     \<lparr>status_code = 200,
      body = JObj [(''city'', JStr ''Paris''), (''temp'', JNum 15.2),
                   (''description'', JStr ''N/A''), (''icon'', JStr ''N/A'')]\<rparr>
   \<and> response (weather_handler
       (world_with (Some ''k1'') (Inr \<lparr>status = 200, text_of = Inr ''(json)''\<rparr>)
          (Inr (JObj [(''name'', JStr ''Paris''), (''main'', JObj [(''temp'', JNum (15.2 :: real))])])))
       \<lparr>query_city = Some ''Paris''\<rparr>) =
     \<lparr>status_code = 200,
      body = JObj [(''city'', JStr ''Paris''), (''temp'', JNum 15.2),
                   (''description'', JStr ''N/A''), (''icon'', JStr ''N/A'')]\<rparr>"
proof -
  let ?r = "\<lparr>status = 200, text_of = Inr ''(json)''\<rparr>"
  let ?empty = "JObj [(''name'', JStr ''Paris''), (''main'', JObj [(''temp'', JNum (15.2 :: real))]),
                      (''weather'', JArr [])]"
  let ?absent = "JObj [(''name'', JStr ''Paris''), (''main'', JObj [(''temp'', JNum (15.2 :: real))])]"
  have "response (weather_handler (world_with (Some ''k1'') (Inr ?r) (Inr ?empty))
          \<lparr>query_city = Some ''Paris''\<rparr>) =
        res_json 200 [(''city'', Some (JStr ''Paris'')), (''temp'', Some (JNum 15.2)),
                      (''description'', Some (JStr ''N/A'')), (''icon'', Some (JStr ''N/A''))]"
    by (rule no_weather_defaults [where city = "''Paris''" and key = "''k1''" and raw = "''(json)''"
          and r = ?r and data = ?empty and main = "Some (JObj [(''temp'', JNum 15.2)])"])
       (simp_all add: world_with_def ok_def)
  moreover have "response (weather_handler (world_with (Some ''k1'') (Inr ?r) (Inr ?absent))
          \<lparr>query_city = Some ''Paris''\<rparr>) =
        res_json 200 [(''city'', Some (JStr ''Paris'')), (''temp'', Some (JNum 15.2)),
                      (''description'', Some (JStr ''N/A'')), (''icon'', Some (JStr ''N/A''))]"
    by (rule no_weather_defaults [where city = "''Paris''" and key = "''k1''" and raw = "''(json)''"
          and r = ?r and data = ?absent and main = "Some (JObj [(''temp'', JNum 15.2)])"])
       (simp_all add: world_with_def ok_def)
  ultimately show ?thesis
    by (simp add: res_json_def)
qed

subsection \<open>The checks before the upstream call\<close>

text \<open>
  Claim C3. The \<^verbatim>\<open>city\<close> query parameter is missing or empty: the handler answers
  with status 400 and a body with an \<^verbatim>\<open>error\<close> field, and makes no outbound call.
\<close>

theorem missing_city_rejected:
  assumes "query_city req = None \<or> query_city req = Some []"
  shows "response (weather_handler w req) =
           \<lparr>status_code = 400, body = JObj [(''error'', JStr msg_missing_city)]\<rparr>
         \<and> upstream_calls (trace (weather_handler w req)) = []"
  using assms
  by (simp add: weather_handler_sent weather_try_missing_city error_response_def res_json_def
      upstream_calls_def)

text \<open>An empty \<^verbatim>\<open>city\<close> in a world where everything else would succeed.\<close>

theorem missing_city_rejected_witness:
  "response (weather_handler
       (world_with (Some ''k1'') (Inr \<lparr>status = 200, text_of = Inr ''(json)''\<rparr>) (Inr paris_payload))
       \<lparr>query_city = Some []\<rparr>) =
     \<lparr>status_code = 400, body = JObj [(''error'', JStr msg_missing_city)]\<rparr>
   \<and> upstream_calls (trace (weather_handler
       (world_with (Some ''k1'') (Inr \<lparr>status = 200, text_of = Inr ''(json)''\<rparr>) (Inr paris_payload))
       \<lparr>query_city = Some []\<rparr>)) = []"
  by (rule missing_city_rejected) simp

text \<open>
  Claim C10. The city is checked before the credential: when both the \<^verbatim>\<open>city\<close>
  parameter and the credential are absent (or empty), the handler answers with status 400,
  not 500. The credential is looked up in the environment of the request: for a request
  with a city, an environment whose credential is the empty string gives the same status
  500 response as one without the credential, and an environment with a credential makes
  the handler call the upstream provider once, at the URL that carries this credential.
\<close>

theorem city_checked_before_credential:
  "((query_city req = None \<or> query_city req = Some [])
      \<and> (env w ''OPENWEATHER_API_KEY'' = None \<or> env w ''OPENWEATHER_API_KEY'' = Some [])
     \<longrightarrow> status_code (response (weather_handler w req)) = 400)
   \<and> (query_city req = Some city \<and> city \<noteq> [] \<longrightarrow>
        response (weather_handler (w\<lparr>env := (env w)(''OPENWEATHER_API_KEY'' \<mapsto> [])\<rparr>) req) =
          \<lparr>status_code = 500, body = JObj [(''error'', JStr msg_missing_key)]\<rparr>
      \<and> response (weather_handler (w\<lparr>env := (env w)(''OPENWEATHER_API_KEY'' := None)\<rparr>) req) =
          \<lparr>status_code = 500, body = JObj [(''error'', JStr msg_missing_key)]\<rparr>
      \<and> (key \<noteq> [] \<longrightarrow>
          upstream_calls
            (trace (weather_handler (w\<lparr>env := (env w)(''OPENWEATHER_API_KEY'' \<mapsto> key)\<rparr>) req)) =
          [Fetch (weather_url city key)]))"
proof (intro conjI impI)
  assume "(query_city req = None \<or> query_city req = Some [])
      \<and> (env w ''OPENWEATHER_API_KEY'' = None \<or> env w ''OPENWEATHER_API_KEY'' = Some [])"
  then have "weather_try w req = ([], Inr (error_response 400 msg_missing_city))"
    by (simp add: weather_try_missing_city)
  then show "status_code (response (weather_handler w req)) = 400"
    by (simp add: weather_handler_def error_response_def res_json_def)
next
  assume c: "query_city req = Some city \<and> city \<noteq> []"
  let ?w = "w\<lparr>env := (env w)(''OPENWEATHER_API_KEY'' \<mapsto> [])\<rparr>"
  have "snd (weather_try ?w req) = Inr (error_response 500 msg_missing_key)"
    using c by (simp add: weather_try_missing_key [where city = city])
  then show "response (weather_handler ?w req) =
      \<lparr>status_code = 500, body = JObj [(''error'', JStr msg_missing_key)]\<rparr>"
    by (simp add: weather_handler_sent error_response_def res_json_def)
next
  assume c: "query_city req = Some city \<and> city \<noteq> []"
  let ?w = "w\<lparr>env := (env w)(''OPENWEATHER_API_KEY'' := None)\<rparr>"
  have "snd (weather_try ?w req) = Inr (error_response 500 msg_missing_key)"
    using c by (simp add: weather_try_missing_key [where city = city])
  then show "response (weather_handler ?w req) =
      \<lparr>status_code = 500, body = JObj [(''error'', JStr msg_missing_key)]\<rparr>"
    by (simp add: weather_handler_sent error_response_def res_json_def)
next
  assume c: "query_city req = Some city \<and> city \<noteq> []" and k: "key \<noteq> []"
  let ?w = "w\<lparr>env := (env w)(''OPENWEATHER_API_KEY'' \<mapsto> key)\<rparr>"
  have t: "fst (weather_try ?w req) =
      ConsoleLog [Some label_key, Some key] # fst (call_upstream ?w city key)"
    using c k by (simp add: weather_try_call [where city = city and key = key])
  have "upstream_calls (fst (weather_try ?w req)) = [Fetch (weather_url city key)]"
    unfolding t using call_upstream_fetches_once [of ?w city key]
    by (simp add: upstream_calls_def)
  then show "upstream_calls (trace (weather_handler ?w req)) = [Fetch (weather_url city key)]"
    by (cases "snd (weather_try ?w req)")
       (simp_all add: weather_handler_caught weather_handler_sent upstream_calls_def)
qed

text \<open>
  A request without a city in a world without a credential; then a request for Paris in
  that world with the credential set to the empty string, and set to a key.
\<close>

theorem city_checked_before_credential_witness:
  "status_code (response (weather_handler
       (world_with None (Inr \<lparr>status = 200, text_of = Inr ''(json)''\<rparr>) (Inr paris_payload))
       \<lparr>query_city = None\<rparr>)) = 400
   \<and> response (weather_handler
       (world_with None (Inr \<lparr>status = 200, text_of = Inr ''(json)''\<rparr>) (Inr paris_payload)
          \<lparr>env := [''OPENWEATHER_API_KEY'' \<mapsto> []]\<rparr>)
       \<lparr>query_city = Some ''Paris''\<rparr>) =
     \<lparr>status_code = 500, body = JObj [(''error'', JStr msg_missing_key)]\<rparr>
   \<and> upstream_calls (trace (weather_handler
       (world_with None (Inr \<lparr>status = 200, text_of = Inr ''(json)''\<rparr>) (Inr paris_payload)
          \<lparr>env := [''OPENWEATHER_API_KEY'' \<mapsto> ''k1'']\<rparr>)
       \<lparr>query_city = Some ''Paris''\<rparr>)) =
     [Fetch (weather_url ''Paris'' ''k1'')]"
proof -
  let ?w = "world_with None (Inr \<lparr>status = 200, text_of = Inr ''(json)''\<rparr>) (Inr paris_payload)"
  have e: "env ?w = Map.empty"
    by (simp add: world_with_def)
  from city_checked_before_credential [of "\<lparr>query_city = None\<rparr>" ?w]
  have "status_code (response (weather_handler ?w \<lparr>query_city = None\<rparr>)) = 400"
    by (simp add: e)
  moreover
  from city_checked_before_credential [of "\<lparr>query_city = Some ''Paris''\<rparr>" ?w "''Paris''" "''k1''"]
  have "response (weather_handler (?w\<lparr>env := [''OPENWEATHER_API_KEY'' \<mapsto> []]\<rparr>)
          \<lparr>query_city = Some ''Paris''\<rparr>) =
        \<lparr>status_code = 500, body = JObj [(''error'', JStr msg_missing_key)]\<rparr>"
    and "upstream_calls (trace (weather_handler (?w\<lparr>env := [''OPENWEATHER_API_KEY'' \<mapsto> ''k1'']\<rparr>)
          \<lparr>query_city = Some ''Paris''\<rparr>)) = [Fetch (weather_url ''Paris'' ''k1'')]"
    by (simp_all add: e)
  ultimately show ?thesis
    by simp
qed

text \<open>
  Claim C5. For a request with a city, when the credential is absent from the environment
  that the handler reads, the handler answers with status 500 and an error body and makes
  no outbound call. The credential is required at the start of the process: when neither
  the environment given to the process nor the \<^verbatim>\<open>.env\<close> file loaded at line 6 has
  it, every such request that the started process handles gets this status 500 response,
  again with no outbound call.
\<close>

theorem missing_key_rejected:
  assumes "query_city req = Some city" and "city \<noteq> []"
  shows "(env w ''OPENWEATHER_API_KEY'' = None \<longrightarrow>
            response (weather_handler w req) =
              \<lparr>status_code = 500, body = JObj [(''error'', JStr msg_missing_key)]\<rparr>
          \<and> upstream_calls (trace (weather_handler w req)) = [])
       \<and> (startup h = Inr srv
            \<and> initial_env h ''OPENWEATHER_API_KEY'' = None
            \<and> dotenv_file h ''OPENWEATHER_API_KEY'' = None \<longrightarrow>
            response (weather_handler (running srv w) req) =
              \<lparr>status_code = 500, body = JObj [(''error'', JStr msg_missing_key)]\<rparr>
          \<and> upstream_calls (trace (weather_handler (running srv w) req)) = [])"
proof -
  have handler: "response (weather_handler v req) =
        \<lparr>status_code = 500, body = JObj [(''error'', JStr msg_missing_key)]\<rparr>
      \<and> upstream_calls (trace (weather_handler v req)) = []"
    if "env v ''OPENWEATHER_API_KEY'' = None" for v :: "'a world"
  proof -
    have "weather_try v req =
        ([ConsoleLog [Some label_key, env v ''OPENWEATHER_API_KEY'']],
         Inr (error_response 500 msg_missing_key))"
      using assms that by (simp add: weather_try_missing_key [where city = city])
    then have "weather_handler v req =
        \<lparr>trace = [ConsoleLog [Some label_key, env v ''OPENWEATHER_API_KEY'']],
         response = error_response 500 msg_missing_key\<rparr>"
      by (simp add: weather_handler_def)
    then show ?thesis
      by (simp add: error_response_def res_json_def upstream_calls_def)
  qed
  have started: "env (running srv w) ''OPENWEATHER_API_KEY'' = None"
    if "startup h = Inr srv" and "initial_env h ''OPENWEATHER_API_KEY'' = None"
      and "dotenv_file h ''OPENWEATHER_API_KEY'' = None"
  proof -
    from that(1) have "process_env srv = dotenv_config h"
      by (auto simp: startup_def Let_def split: sum.splits)
    with that(2,3) show ?thesis
      by (simp add: running_def dotenv_config_def map_add_def)
  qed
  from handler started show ?thesis
    by blast
qed

text \<open>
  A process started with an empty environment and a \<^verbatim>\<open>.env\<close> file that sets the port
  only; a request for Paris in a world without a credential, and the same request handled
  by this process in a world where the upstream would answer.
\<close>

theorem missing_key_rejected_witness:
  "startup \<lparr>initial_env = Map.empty, dotenv_file = [''PORT'' \<mapsto> ''8080''],
            listen = (\<lambda>p. Inr ())\<rparr> =
     Inr \<lparr>process_env = [''PORT'' \<mapsto> ''8080''], listening_on = PortEnv ''8080'',
          startup_log = [ConsoleLog [Some ''Server listening on port 8080'']]\<rparr>
   \<and> response (weather_handler
       (world_with None (Inr \<lparr>status = 200, text_of = Inr ''(json)''\<rparr>) (Inr paris_payload))
       \<lparr>query_city = Some ''Paris''\<rparr>) =
     \<lparr>status_code = 500, body = JObj [(''error'', JStr msg_missing_key)]\<rparr>
   \<and> upstream_calls (trace (weather_handler
       (world_with None (Inr \<lparr>status = 200, text_of = Inr ''(json)''\<rparr>) (Inr paris_payload))
       \<lparr>query_city = Some ''Paris''\<rparr>)) = []
   \<and> response (weather_handler
       (running \<lparr>process_env = [''PORT'' \<mapsto> ''8080''], listening_on = PortEnv ''8080'',
                 startup_log = [ConsoleLog [Some ''Server listening on port 8080'']]\<rparr>
          (world_with (Some ''k1'') (Inr \<lparr>status = 200, text_of = Inr ''(json)''\<rparr>)
             (Inr paris_payload)))
       \<lparr>query_city = Some ''Paris''\<rparr>) =
     \<lparr>status_code = 500, body = JObj [(''error'', JStr msg_missing_key)]\<rparr>
   \<and> upstream_calls (trace (weather_handler
       (running \<lparr>process_env = [''PORT'' \<mapsto> ''8080''], listening_on = PortEnv ''8080'',
                 startup_log = [ConsoleLog [Some ''Server listening on port 8080'']]\<rparr>
          (world_with (Some ''k1'') (Inr \<lparr>status = 200, text_of = Inr ''(json)''\<rparr>)
             (Inr paris_payload)))
       \<lparr>query_city = Some ''Paris''\<rparr>)) = []"
proof -
  let ?h = "\<lparr>initial_env = Map.empty, dotenv_file = [''PORT'' \<mapsto> ''8080''],
             listen = (\<lambda>p. Inr ())\<rparr>"
  let ?srv = "\<lparr>process_env = [''PORT'' \<mapsto> ''8080''], listening_on = PortEnv ''8080'',
               startup_log = [ConsoleLog [Some ''Server listening on port 8080'']]\<rparr>"
  let ?none = "world_with None (Inr \<lparr>status = 200, text_of = Inr ''(json)''\<rparr>)
                 (Inr paris_payload)"
  let ?w = "world_with (Some ''k1'') (Inr \<lparr>status = 200, text_of = Inr ''(json)''\<rparr>)
              (Inr paris_payload)"
  have started: "startup ?h = Inr ?srv"
    by (simp add: startup_def dotenv_config_def PORT_def)
  have absent: "env ?none ''OPENWEATHER_API_KEY'' = None"
    by (simp add: world_with_def)
  have city: "query_city \<lparr>query_city = Some ''Paris''\<rparr> = Some ''Paris''" and ne: "''Paris'' \<noteq> []"
    by simp_all
  from missing_key_rejected [OF city ne, of ?none ?h ?srv] started absent
  have a: "response (weather_handler ?none \<lparr>query_city = Some ''Paris''\<rparr>) =
        \<lparr>status_code = 500, body = JObj [(''error'', JStr msg_missing_key)]\<rparr>
      \<and> upstream_calls (trace (weather_handler ?none \<lparr>query_city = Some ''Paris''\<rparr>)) = []"
    by blast
  from missing_key_rejected [OF city ne, of ?w ?h ?srv] started
  have b: "response (weather_handler (running ?srv ?w) \<lparr>query_city = Some ''Paris''\<rparr>) =
        \<lparr>status_code = 500, body = JObj [(''error'', JStr msg_missing_key)]\<rparr>
      \<and> upstream_calls (trace (weather_handler (running ?srv ?w) \<lparr>query_city = Some ''Paris''\<rparr>)) = []"
    by simp
  from started a b show ?thesis
    by blast
qed

subsection \<open>Failures of the upstream call\<close>




text \<open>
  Claim C6. When the \<^verbatim>\<open>try\<close> block throws an exception (the upstream is unreachable,
  its body cannot be read or is malformed JSON, the payload cannot be read), the handler
  answers with status 500 and the fixed body \<^verbatim>\<open>{error:"Erreur serveur."}\<close>, whatever
  the exception and its text are; the exception goes to the server's console only.
\<close>

theorem exception_caught:
  assumes "snd (weather_try w req) = Inl err"
  shows "response (weather_handler w req) =
           \<lparr>status_code = 500, body = JObj [(''error'', JStr ''Erreur serveur.'')]\<rparr>
         \<and> trace (weather_handler w req) = fst (weather_try w req) @ [ConsoleError err]"
  using assms
  by (simp add: weather_handler_caught error_response_def res_json_def msg_server_def)

text \<open>A network failure, and an upstream body that is not JSON.\<close>

theorem exception_caught_witness:
  "response (weather_handler
       (world_with (Some ''k1'') (Inl (JsError ''TypeError'' ''fetch failed'')) (Inr paris_payload))
       \<lparr>query_city = Some ''Paris''\<rparr>) =
     \<lparr>status_code = 500, body = JObj [(''error'', JStr ''Erreur serveur.'')]\<rparr>
   \<and> response (weather_handler
       (world_with (Some ''k1'') (Inr \<lparr>status = 200, text_of = Inr ''<html>''\<rparr>)
          (Inl (JsError ''SyntaxError'' ''Unexpected token <'') :: js_error + real json))
       \<lparr>query_city = Some ''Paris''\<rparr>) =
     \<lparr>status_code = 500, body = JObj [(''error'', JStr ''Erreur serveur.'')]\<rparr>"
proof -
  let ?net = "world_with (Some ''k1'') (Inl (JsError ''TypeError'' ''fetch failed''))
                (Inr paris_payload)"
  let ?bad = "world_with (Some ''k1'') (Inr \<lparr>status = 200, text_of = Inr ''<html>''\<rparr>)
                (Inl (JsError ''SyntaxError'' ''Unexpected token <'') :: js_error + real json)"
  let ?req = "\<lparr>query_city = Some ''Paris''\<rparr>"
  have a: "snd (weather_try ?net ?req) = Inl (JsError ''TypeError'' ''fetch failed'')"
    by (rule network_failure_throws [where city = "''Paris''" and key = "''k1''"])
       (simp_all add: world_with_def)
  have b: "snd (weather_try ?bad ?req) = Inl (JsError ''SyntaxError'' ''Unexpected token <'')"
    by (rule malformed_json_throws [where city = "''Paris''" and key = "''k1''"
          and raw = "''<html>''" and r = "\<lparr>status = 200, text_of = Inr ''<html>''\<rparr>"])
       (simp_all add: world_with_def ok_def)
  from exception_caught [OF a] exception_caught [OF b] show ?thesis
    by simp
qed

text \<open>
  Claim C7, as the code has it. The upstream call succeeds and the parsed payload is
  \<^verbatim>\<open>null\<close>, or its \<^verbatim>\<open>main\<close> is missing or \<^verbatim>\<open>null\<close>, so that
  \<^verbatim>\<open>data.name\<close> or \<^verbatim>\<open>data.main.temp\<close> cannot be read: the success path throws a
  TypeError, the \<^verbatim>\<open>catch\<close> block takes it, and the handler answers with status 500
  and the body \<^verbatim>\<open>{error:"Erreur serveur."}\<close>.
\<close>

theorem unreadable_main_caught:
  assumes "query_city req = Some city" and "city \<noteq> []"
    and "env w ''OPENWEATHER_API_KEY'' = Some key" and "key \<noteq> []"
    and "fetch w (weather_url city key) = Inr r" and "ok r"
    and "text_of r = Inr raw"
    and "JSON_parse w raw = Inr data"
    and "data = JNull \<or> member (Some data) ''main'' = Inr None
         \<or> member (Some data) ''main'' = Inr (Some JNull)"
  shows "(\<exists>err. snd (weather_try w req) = Inl err \<and> err_name err = ''TypeError'')
         \<and> response (weather_handler w req) =
             \<lparr>status_code = 500, body = JObj [(''error'', JStr ''Erreur serveur.'')]\<rparr>"
proof -
  obtain base k where "weather_result data = Inl (cannot_read base k)"
    using weather_result_unreadable [OF assms(9)] by blast
  then have thrown: "snd (weather_try w req) = Inl (cannot_read base k)"
    using assms(1-8) by (simp add: weather_try_call call_upstream_ok and_then_def)
  then have "response (weather_handler w req) = error_response 500 msg_server"
    by (simp add: weather_handler_caught)
  with thrown show ?thesis
    by (simp add: error_response_def res_json_def msg_server_def cannot_read_def)
qed

text \<open>A payload with a name and no \<^verbatim>\<open>main\<close>.\<close>

theorem unreadable_main_caught_witness:
  "response (weather_handler
       (world_with (Some ''k1'') (Inr \<lparr>status = 200, text_of = Inr ''(json)''\<rparr>)
          (Inr (JObj [(''name'', JStr ''Paris'')] :: real json)))
       \<lparr>query_city = Some ''Paris''\<rparr>) =
     \<lparr>status_code = 500, body = JObj [(''error'', JStr ''Erreur serveur.'')]\<rparr>"
proof -
  let ?r = "\<lparr>status = 200, text_of = Inr ''(json)''\<rparr>"
  let ?data = "JObj [(''name'', JStr ''Paris'')] :: real json"
  let ?w = "world_with (Some ''k1'') (Inr ?r) (Inr ?data)"
  have shape: "?data = JNull \<or> member (Some ?data) ''main'' = Inr None
      \<or> member (Some ?data) ''main'' = Inr (Some JNull)"
    by simp
  have "(\<exists>err. snd (weather_try ?w \<lparr>query_city = Some ''Paris''\<rparr>) = Inl err
           \<and> err_name err = ''TypeError'')
      \<and> response (weather_handler ?w \<lparr>query_city = Some ''Paris''\<rparr>) =
          \<lparr>status_code = 500, body = JObj [(''error'', JStr ''Erreur serveur.'')]\<rparr>"
    by (rule unreadable_main_caught [where city = "''Paris''" and key = "''k1''"
          and raw = "''(json)''" and r = ?r, OF _ _ _ _ _ _ _ _ shape])
       (simp_all add: world_with_def ok_def)
  then show ?thesis
    by simp
qed

text \<open>
  Claim C7 as written covers every unguarded field, \<^verbatim>\<open>data.name\<close> among them. A
  payload without \<^verbatim>\<open>name\<close> does not throw: reading the missing property gives
  \<^verbatim>\<open>undefined\<close>, and the handler answers with status 200 and a body that has no
  \<^verbatim>\<open>city\<close>.
\<close>

theorem missing_name_not_caught:
  "response (weather_handler
       (world_with (Some ''k1'') (Inr \<lparr>status = 200, text_of = Inr ''(json)''\<rparr>)
          (Inr (JObj [(''main'', JObj [(''temp'', JNum (15.2 :: real))]),
                      (''weather'', JArr [JObj [(''description'', JStr ciel_degage),
                                                (''icon'', JStr ''01d'')]])])))
       \<lparr>query_city = Some ''Paris''\<rparr>) =
     \<lparr>status_code = 200,
      body = JObj [(''temp'', JNum 15.2), (''description'', JStr ciel_degage),
                   (''icon'', JStr ''01d'')]\<rparr>"
  by (simp add: weather_handler_def weather_try_def call_upstream_def world_with_def ok_def
      and_then_def weather_result_def first_weather_def opt_index0_def opt_member_def
      coalesce_def res_json_def Let_def)

subsection \<open>The shape of the error bodies\<close>

text \<open>
  Claim C8. Every response of the weather handler whose status is not 200 is one of the
  five error outcomes (400 missing parameter, 500 missing credential, 404 city not found,
  500 upstream error, 500 internal error), and its body is an object with the single field
  \<^verbatim>\<open>error\<close>, a fixed message.
\<close>

theorem error_bodies:
  assumes "status_code (response (weather_handler w req)) \<noteq> 200"
  shows "(status_code (response (weather_handler w req)), body (response (weather_handler w req)))
         \<in> {(400, JObj [(''error'', JStr msg_missing_city)]),
             (500, JObj [(''error'', JStr msg_missing_key)]),
             (404, JObj [(''error'', JStr msg_not_found)]),
             (500, JObj [(''error'', JStr msg_upstream)]),
             (500, JObj [(''error'', JStr msg_server)])}"
proof (cases "snd (weather_try w req)")
  case (Inl err)
  then show ?thesis
    by (simp add: weather_handler_caught error_response_def res_json_def)
next
  case (Inr r)
  then have "response (weather_handler w req) = r"
    by (simp add: weather_handler_sent)
  with assms weather_try_status [OF Inr] show ?thesis
    by (auto simp: error_response_def res_json_def)
qed

text \<open>The response to an upstream 404 is among them.\<close>

theorem error_bodies_witness:
  "(status_code (response (weather_handler
       (world_with (Some ''k1'') (Inr \<lparr>status = 404, text_of = Inr ''city not found''\<rparr>)
          (Inr paris_payload))
       \<lparr>query_city = Some ''Atlantis''\<rparr>)),
    body (response (weather_handler
       (world_with (Some ''k1'') (Inr \<lparr>status = 404, text_of = Inr ''city not found''\<rparr>)
          (Inr paris_payload))
       \<lparr>query_city = Some ''Atlantis''\<rparr>)))
   \<in> {(400, JObj [(''error'', JStr msg_missing_city)]),
       (500, JObj [(''error'', JStr msg_missing_key)]),
       (404, JObj [(''error'', JStr msg_not_found)]),
       (500, JObj [(''error'', JStr msg_upstream)]),
       (500, JObj [(''error'', JStr msg_server)])}"
proof -
  let ?w = "world_with (Some ''k1'') (Inr \<lparr>status = 404, text_of = Inr ''city not found''\<rparr>)
              (Inr paris_payload)"
  let ?req = "\<lparr>query_city = Some ''Atlantis''\<rparr>"
  have "snd (call_upstream ?w ''Atlantis'' ''k1'') = Inr (error_response 404 msg_not_found)"
    by (simp add: call_upstream_failed [where raw = "''city not found''"
          and r = "\<lparr>status = 404, text_of = Inr ''city not found''\<rparr>"] world_with_def ok_def)
  then have "snd (weather_try ?w ?req) = Inr (error_response 404 msg_not_found)"
    by (simp add: weather_try_call [where city = "''Atlantis''" and key = "''k1''"] world_with_def)
  then have "response (weather_handler ?w ?req) = error_response 404 msg_not_found"
    by (simp add: weather_handler_sent)
  then have "status_code (response (weather_handler ?w ?req)) \<noteq> 200"
    by (simp add: error_response_def res_json_def)
  then show ?thesis
    by (rule error_bodies)
qed

subsection \<open>The health route\<close>

text \<open>
  Claim C9. Whatever the request and the world are, the health handler answers with
  status 200 and exactly the body \<^verbatim>\<open>{status:"ok"}\<close>, and does nothing else.
\<close>

theorem health_ok:
  "health_handler w req =
     \<lparr>trace = [], response = \<lparr>status_code = 200, body = JObj [(''status'', JStr ''ok'')]\<rparr>\<rparr>"
  by (simp add: health_handler_def res_json_def)

end
